theory Spec2Isabelle
  imports Complex_Main
begin

section \<open>Python exceptions as values\<close>

text \<open>
  Every \<^verbatim>\<open>raise\<close> of the sources, and every exception the interpreter raises on
  their behalf, is a value of this type. A local variable that a function reads before any
  branch has assigned it raises \<^verbatim>\<open>UnboundLocalError\<close>; the model keeps such a
  variable as an \<open>option\<close> (\<open>None\<close> while it is unbound).
\<close>

datatype py_error =
    ValueError string
  | UnboundLocalError string
  | IndexError
  | ZeroDivisionError
  | SyntaxError

section \<open>Configuration checks: \<^verbatim>\<open>neuralgeom/default_config.py\<close>, \<^verbatim>\<open>neuralgeom/main.py\<close>\<close>

text \<open>
  \<^verbatim>\<open>default_config.py\<close>, lines 121-130: the module walks the list
  \<^verbatim>\<open>dataset_name\<close> and raises \<^verbatim>\<open>ValueError\<close> at the first entry that is
  not one of the five known names. The message is the f-string of the source.
\<close>

definition recognized_datasets :: "string list" where
  "recognized_datasets =
     [''s1_synthetic'', ''s2_synthetic'', ''t2_synthetic'', ''experimental'', ''grid_cells'']"

definition not_recognized_msg :: "string \<Rightarrow> string" where
  "not_recognized_msg one_dataset_name =
     ''Dataset name '' @ one_dataset_name @ '' not recognized.''"

fun check_dataset_name :: "string list \<Rightarrow> py_error + unit" where
  "check_dataset_name [] = Inr ()"
| "check_dataset_name (one_dataset_name # rest) =
     (if one_dataset_name \<notin> set recognized_datasets
      then Inl (ValueError (not_recognized_msg one_dataset_name))
      else check_dataset_name rest)"

text \<open>
  \<^verbatim>\<open>main.py\<close>, \<^verbatim>\<open>train_test_model\<close>: the local \<^verbatim>\<open>model\<close> is assigned in the
  two branches of the \<^verbatim>\<open>if\<close>/\<^verbatim>\<open>elif\<close> only, and read when the optimizer is built.
  The constructors of the two model classes and \<^verbatim>\<open>train.train_test\<close> live outside the
  sources at hand: the constructed model is recorded by its class and the posterior type it
  was given, and the training routine is a parameter.
\<close>

datatype model_obj = NeuralVAE string | ToroidalVAE string

definition train_test_model ::
  "(model_obj \<Rightarrow> py_error + 'r) \<Rightarrow> string \<Rightarrow> py_error + 'r" where
  "train_test_model train_test posterior_type =
     (let model =
        (if posterior_type \<in> set [''gaussian'', ''hyperspherical'']
         then Some (NeuralVAE posterior_type)
         else if posterior_type = ''toroidal''
         then Some (ToroidalVAE posterior_type)
         else None)
      in case model of
           None \<Rightarrow> Inl (UnboundLocalError ''model'')
         | Some m \<Rightarrow> train_test m)"

text \<open>
  \<^verbatim>\<open>main.py\<close>, \<^verbatim>\<open>evaluate_curvature\<close>. What the function does is a sequence of calls
  to collaborators (\<^verbatim>\<open>evaluate\<close>, \<^verbatim>\<open>viz\<close>, \<^verbatim>\<open>wandb\<close>); the model returns that
  sequence. \<^verbatim>\<open>norm_val\<close> is \<^verbatim>\<open>None\<close> unless the synthetic branch sets it: a call
  of \<^verbatim>\<open>plot_curv\<close> is recorded with the name of the curvature it plots and with
  whether it is given a \<^verbatim>\<open>norm_val\<close>.
\<close>

datatype action =
    Print string
  | Compute_mean_curvature_true
  | Compute_mean_curvature_learned
  | Compute_error
  | Plot_curv string bool
  | Wandb_log string

definition synthetic_datasets :: "string list" where
  "synthetic_datasets = [''s1_synthetic'', ''s2_synthetic'', ''t2_synthetic'']"

definition evaluate_curvature :: "string \<Rightarrow> action list" where
  "evaluate_curvature dataset_name =
     (if dataset_name \<in> set synthetic_datasets
      then [Print ''Computing true curvature from synthetic data...'',
            Compute_mean_curvature_true,
            Plot_curv ''true'' False,
            Wandb_log ''fig_curv_norms_true'']
      else [])
     @ [Print ''Computing learned curvature...'', Compute_mean_curvature_learned]
     @ (if dataset_name \<in> set synthetic_datasets
        then [Compute_error, Wandb_log ''curvature_error'']
        else [])
     @ [Plot_curv ''learned'' (dataset_name \<in> set synthetic_datasets),
        Wandb_log ''fig_curv_norms_learned'']"

section \<open>The fully connected VAE: \<^verbatim>\<open>neuralgeom/models/fc_vae.py\<close>\<close>

text \<open>
  A tensor of shape \<^verbatim>\<open>[batch_size, width]\<close> is a list of rows. Torch's floats are
  read as reals. A linear layer is the function it computes; its weights are not
  looked into. The class keeps its posterior type as a string, and so does the record.
  \<^verbatim>\<open>F.softplus\<close> is torch's, with its default threshold of 20.
\<close>

type_synonym tensor = "real list list"

record vae =
  data_dim :: nat
  latent_dim :: int
  posterior_type :: string
  encoder_fc :: "tensor \<Rightarrow> tensor"
  encoder_linears :: "(tensor \<Rightarrow> tensor) list"
  fc_z_mu :: "tensor \<Rightarrow> tensor"
  fc_z_logvar :: "tensor \<Rightarrow> tensor"

definition relu :: "tensor \<Rightarrow> tensor" where
  "relu h = map (map (\<lambda>v. max 0 v)) h"

definition softplus :: "tensor \<Rightarrow> tensor" where
  "softplus h = map (map (\<lambda>v. if v > 20 then v else ln (1 + exp v))) h"

definition ones_like :: "tensor \<Rightarrow> tensor" where
  "ones_like t = map (map (\<lambda>_. 1)) t"

datatype distribution =
    Normal tensor tensor
  | VonMisesFisher tensor tensor
  | HypersphericalUniform int

text \<open>
  \<^verbatim>\<open>VAE.encode\<close>: \<^verbatim>\<open>posterior_params\<close> is assigned in the branches for
  \<^verbatim>\<open>"gaussian"\<close> and \<^verbatim>\<open>"hyperspherical"\<close> only, and read by the \<^verbatim>\<open>return\<close>.
\<close>

definition encode :: "vae \<Rightarrow> tensor \<Rightarrow> py_error + (tensor \<times> tensor)" where
  "encode self x =
     (let h = fold (\<lambda>layer h. relu (layer h)) (encoder_linears self)
                (relu (encoder_fc self x));
          posterior_params =
            (if posterior_type self = ''gaussian''
             then Some (fc_z_mu self h, fc_z_logvar self h)
             else if posterior_type self = ''hyperspherical''
             then Some (fc_z_mu self h,
                        map (map (\<lambda>v. v + 1)) (softplus (fc_z_logvar self h)))
             else None)
      in case posterior_params of
           None \<Rightarrow> Inl (UnboundLocalError ''posterior_params'')
         | Some params \<Rightarrow> Inr params)"

text \<open>
  \<^verbatim>\<open>VAE.reparameterize\<close>: \<^verbatim>\<open>q_z\<close> and \<^verbatim>\<open>p_z\<close> are assigned in the same two
  branches, and \<^verbatim>\<open>q_z.rsample()\<close> reads \<^verbatim>\<open>q_z\<close>. Sampling belongs to the
  distribution classes, which are torch's and \<^verbatim>\<open>hyperspherical_vae\<close>'s: it is the
  parameter \<open>rsample\<close>, which draws from a distribution and advances the state of the
  random number generator. The result is the triple \<^verbatim>\<open>z, q_z, p_z\<close>.
\<close>

definition reparameterize ::
  "(distribution \<Rightarrow> 'g \<Rightarrow> tensor \<times> 'g) \<Rightarrow> vae \<Rightarrow> tensor \<times> tensor \<Rightarrow> 'g
     \<Rightarrow> py_error + ((tensor \<times> distribution \<times> distribution) \<times> 'g)" where
  "reparameterize rsample self posterior_params g =
     (let dists =
        (if posterior_type self = ''gaussian''
         then (let (z_mu, z_logvar) = posterior_params;
                   z_std = map (map (\<lambda>v. exp (0.5 * v))) z_logvar;
                   p_z = Normal (ones_like z_mu) (ones_like z_std);
                   q_z = Normal z_mu z_std
               in Some (q_z, p_z))
         else if posterior_type self = ''hyperspherical''
         then (let (z_mu, z_kappa) = posterior_params;
                   q_z = VonMisesFisher z_mu z_kappa;
                   p_z = HypersphericalUniform (latent_dim self - 1)
               in Some (q_z, p_z))
         else None)
      in case dists of
           None \<Rightarrow> Inl (UnboundLocalError ''q_z'')
         | Some (q_z, p_z) \<Rightarrow>
             (let (z, g') = rsample q_z g in Inr ((z, q_z, p_z), g')))"

section \<open>The grid-cell training loop: \<^verbatim>\<open>piRNNs/saliency/experiment.py\<close>\<close>

text \<open>
  \<^verbatim>\<open>Experiment.train_and_evaluate\<close>, lines 112-138. Of the experiment the model keeps
  the step it starts from, the \<^verbatim>\<open>"lr"\<close> entry of every parameter group of the
  optimizer, and the number of calls of \<^verbatim>\<open>optimizer.step()\<close> so far. The local variable
  \<^verbatim>\<open>lr\<close> is assigned under \<^verbatim>\<open>120000 > step > 10000\<close> only (the other branches are
  commented out in the source) and keeps its value from one iteration to the next; the
  loop over the parameter groups reads it once per group. The forward and backward pass,
  the clamping and the logging are the collaborators' and leave these three untouched.
\<close>

record train_config =
  num_steps_train :: int
  lr :: real

record Experiment =
  starting_step :: int
  param_groups :: "real list"
  optimizer_steps :: nat

fun set_param_group_lr :: "real option \<Rightarrow> real list \<Rightarrow> py_error + real list" where
  "set_param_group_lr lr_local [] = Inr []"
| "set_param_group_lr lr_local (param_group # rest) =
     (case lr_local of
        None \<Rightarrow> Inl (UnboundLocalError ''lr'')
      | Some v \<Rightarrow>
          (case set_param_group_lr lr_local rest of
             Inl e \<Rightarrow> Inl e
           | Inr rest' \<Rightarrow> Inr (v # rest')))"

definition training_step ::
  "train_config \<Rightarrow> int \<Rightarrow> real option \<times> Experiment
     \<Rightarrow> py_error + (real option \<times> Experiment)" where
  "training_step config step st =
     (let (lr_local, self) = st;
          lr_local = (if 120000 > step \<and> step > 10000 then Some (lr config) else lr_local)
      in case set_param_group_lr lr_local (param_groups self) of
           Inl e \<Rightarrow> Inl e
         | Inr groups \<Rightarrow>
             Inr (lr_local,
                  self\<lparr>param_groups := groups,
                       optimizer_steps := optimizer_steps self + 1\<rparr>))"

fun training_loop ::
  "train_config \<Rightarrow> int list \<Rightarrow> real option \<times> Experiment
     \<Rightarrow> py_error + (real option \<times> Experiment)" where
  "training_loop config [] st = Inr st"
| "training_loop config (step # steps) st =
     (case training_step config step st of
        Inl e \<Rightarrow> Inl e
      | Inr st' \<Rightarrow> training_loop config steps st')"

text \<open>
  \<^verbatim>\<open>range(self.starting_step, config.num_steps_train + self.starting_step)\<close> is the
  list of integers from the first bound up to the second, the second left out.
\<close>

definition train_and_evaluate :: "train_config \<Rightarrow> Experiment \<Rightarrow> py_error + Experiment" where
  "train_and_evaluate config self =
     (case training_loop config
             [starting_step self .. num_steps_train config + starting_step self - 1]
             (None, self) of
        Inl e \<Rightarrow> Inl e
      | Inr (_, self') \<Rightarrow> Inr self')"

section \<open>The isometry configuration: \<^verbatim>\<open>xu_rnn/configs/rnn_isometry.py\<close>\<close>

text \<open>
  \<^verbatim>\<open>get_config\<close> builds each sub-dictionary by a call \<^verbatim>\<open>d(name=literal, ...)\<close>. A
  call's argument list is kept as the source writes it: keyword arguments and the commas
  between them, in order. Python's grammar wants a comma between two arguments and allows
  one after the last; a keyword may not be repeated. \<^verbatim>\<open>parse_kwargs\<close> reads an argument
  list into the dictionary the call receives, or fails with \<^verbatim>\<open>SyntaxError\<close> as the
  compiler does.
\<close>

datatype pyval =
    PInt int
  | PFloat real
  | PBool bool
  | PStr string
  | PTensor "real list"
  | PDict "(string \<times> pyval) list"

datatype token = KwArg string pyval | Comma

fun split_kwargs :: "token list \<Rightarrow> py_error + (string \<times> pyval) list" where
  "split_kwargs [] = Inr []"
| "split_kwargs [KwArg k v] = Inr [(k, v)]"
| "split_kwargs (KwArg k v # Comma # rest) =
     (case split_kwargs rest of
        Inl e \<Rightarrow> Inl e
      | Inr kvs \<Rightarrow> Inr ((k, v) # kvs))"
| "split_kwargs _ = Inl SyntaxError"

definition parse_kwargs :: "token list \<Rightarrow> py_error + (string \<times> pyval) list" where
  "parse_kwargs toks =
     (case split_kwargs toks of
        Inl e \<Rightarrow> Inl e
      | Inr kvs \<Rightarrow> if distinct (map fst kvs) then Inr kvs else Inl SyntaxError)"

text \<open>The helper \<^verbatim>\<open>d(**kwargs)\<close> wraps the keyword arguments in a ConfigDict.\<close>

definition d :: "token list \<Rightarrow> py_error + pyval" where
  "d toks = (case parse_kwargs toks of Inl e \<Rightarrow> Inl e | Inr kvs \<Rightarrow> Inr (PDict kvs))"

definition train_args :: "token list" where
  "train_args =
     [KwArg ''num_steps_train'' (PInt 25000), Comma,
      KwArg ''lr'' (PFloat 0.006), Comma,
      KwArg ''lr_decay_from'' (PInt 10000), Comma,
      KwArg ''steps_per_logging'' (PInt 20), Comma,
      KwArg ''steps_per_large_logging'' (PInt 500), Comma,
      KwArg ''steps_per_integration'' (PInt 2000), Comma,
      KwArg ''norm_v'' (PBool True), Comma,
      KwArg ''positive_v'' (PBool True), Comma,
      KwArg ''positive_u'' (PBool False), Comma,
      KwArg ''optimizer_type'' (PStr ''adam''), Comma]"

definition data_args :: "token list" where
  "data_args =
     [KwArg ''max_dr_trans'' (PFloat 3.0), Comma,
      KwArg ''max_dr_isometry'' (PFloat 15.0), Comma,
      KwArg ''batch_size'' (PInt 10000), Comma,
      KwArg ''sigma_data'' (PFloat 0.48), Comma,
      KwArg ''add_dx_0'' (PBool False), Comma,
      KwArg ''small_int'' (PBool False), Comma]"

text \<open>
  The argument list of \<^verbatim>\<open>config.model = d(...)\<close>, lines 41-56, in two parts: line 54,
  \<^verbatim>\<open>x_star = torch.tensor([0.5, 0.5])\<close>, ends without a comma, and line 55 goes on
  with the next keyword.
\<close>

definition model_args_to_x_star :: "token list" where
  "model_args_to_x_star =
     [KwArg ''trans_type'' (PStr ''nonlinear_simple''), Comma,
      KwArg ''rnn_step'' (PInt 10), Comma,
      KwArg ''num_grid'' (PInt 40), Comma,
      KwArg ''num_neurons'' (PInt 1800), Comma,
      KwArg ''block_size'' (PInt 12), Comma,
      KwArg ''sigma'' (PFloat 0.07), Comma,
      KwArg ''w_kernel'' (PFloat 1.05), Comma,
      KwArg ''w_trans'' (PFloat 0.1), Comma,
      KwArg ''w_isometry'' (PFloat 0.005), Comma,
      KwArg ''w_reg_u'' (PFloat 0.2), Comma,
      KwArg ''reg_decay_until'' (PInt 15000), Comma,
      KwArg ''adaptive_dr'' (PBool True), Comma,
      KwArg ''s_0'' (PFloat 0.2), Comma,
      KwArg ''x_star'' (PTensor [0.5, 0.5])]"

definition model_args_from_sigma_star :: "token list" where
  "model_args_from_sigma_star =
     [KwArg ''sigma_star'' (PFloat 0.1), Comma,
      KwArg ''reward_step'' (PInt 20000), Comma]"

definition model_args :: "token list" where
  "model_args = model_args_to_x_star @ model_args_from_sigma_star"

definition integration_args :: "token list" where
  "integration_args =
     [KwArg ''n_inte_step'' (PInt 30), Comma,
      KwArg ''n_traj'' (PInt 100), Comma,
      KwArg ''n_inte_step_vis'' (PInt 30), Comma,
      KwArg ''n_traj_vis'' (PInt 5), Comma]"

definition get_config :: "py_error + pyval" where
  "get_config =
     (case d train_args of Inl e \<Rightarrow> Inl e | Inr train \<Rightarrow>
      case d data_args of Inl e \<Rightarrow> Inl e | Inr data \<Rightarrow>
      case d model_args of Inl e \<Rightarrow> Inl e | Inr model \<Rightarrow>
      case d integration_args of Inl e \<Rightarrow> Inl e | Inr integration \<Rightarrow>
        Inr (PDict [(''gpu'', PInt 0), (''train'', train), (''data'', data),
                    (''model'', model), (''integration'', integration)]))"

section \<open>Synthetic datasets: \<^verbatim>\<open>abn/datasets/synthetic.py\<close>\<close>

text \<open>
  The generators read and change two pieces of global state: the state of numpy's random
  number generator, and the records of the \<^verbatim>\<open>logging\<close> module. Both are in the
  \<open>world\<close> that every generator takes and returns. An image is a list of rows, a label
  table (a DataFrame built from a dictionary of columns) the list of its named columns.
  Floats are read as reals.

  The image operations are skimage's and the samplers numpy's: they are parameters. A
  sampler takes the generator state and returns its draw with the next state, which is
  what a pseudo-random generator does.
\<close>

type_synonym image = "real list list"

type_synonym dataframe = "(string \<times> real list) list"

record 'g world =
  rng :: 'g
  log_records :: "string list"

record skimage =
  data_camera :: image
  transform_resize :: "image \<Rightarrow> nat \<times> nat \<Rightarrow> image"
  transform_rotate :: "image \<Rightarrow> real \<Rightarrow> image"
  filters_gaussian :: "image \<Rightarrow> real \<Rightarrow> image"

record 'g numpy =
  random_normal :: "real \<Rightarrow> real \<Rightarrow> nat \<times> nat \<Rightarrow> 'g \<Rightarrow> image \<times> 'g"
  random_poisson :: "real \<Rightarrow> 'g \<Rightarrow> nat \<times> 'g"
  float32 :: "real \<Rightarrow> real"

definition logging_info :: "string \<Rightarrow> 'g world \<Rightarrow> 'g world" where
  "logging_info msg w = w\<lparr>log_records := log_records w @ [msg]\<rparr>"

definition shape :: "image \<Rightarrow> nat \<times> nat" where
  "shape img = (length img, case img of [] \<Rightarrow> 0 | row # _ \<Rightarrow> length row)"

text \<open>
  \<^verbatim>\<open>load_images\<close>, lines 66-75: the loop over \<^verbatim>\<open>range(n_scalars)\<close> inside the loop
  over \<^verbatim>\<open>range(n_angles)\<close>. The three lists grow together; the generator state goes
  from one draw of the noise to the next.
\<close>

fun scalars_loop ::
  "skimage \<Rightarrow> 'g numpy \<Rightarrow> image \<Rightarrow> real \<Rightarrow> nat list
     \<Rightarrow> (image list \<times> real list \<times> real list) \<times> 'g
     \<Rightarrow> (image list \<times> real list \<times> real list) \<times> 'g" where
  "scalars_loop sk np rot_image angle [] st = st"
| "scalars_loop sk np rot_image angle (i_scalar # rest) ((images, angles, scalars), g) =
     (let scalar = 1 + 0.2 * real i_scalar;
          blur_image = filters_gaussian sk rot_image scalar;
          (noise, g') = random_normal np 0.0 0.05 (shape blur_image) g
      in scalars_loop sk np rot_image angle rest
           ((images @ [map (map (float32 np)) (map2 (map2 (+)) blur_image noise)],
             angles @ [angle],
             scalars @ [scalar]), g'))"

fun angles_loop ::
  "skimage \<Rightarrow> 'g numpy \<Rightarrow> image \<Rightarrow> nat \<Rightarrow> nat \<Rightarrow> nat list
     \<Rightarrow> (image list \<times> real list \<times> real list) \<times> 'g
     \<Rightarrow> (image list \<times> real list \<times> real list) \<times> 'g" where
  "angles_loop sk np img n_scalars n_angles [] st = st"
| "angles_loop sk np img n_scalars n_angles (i_angle # rest) st =
     (let angle = 360 * real i_angle / real n_angles;
          rot_image = transform_rotate sk img angle
      in angles_loop sk np img n_scalars n_angles rest
           (scalars_loop sk np rot_image angle [0..<n_scalars] st))"

definition load_images ::
  "skimage \<Rightarrow> 'g numpy \<Rightarrow> nat \<Rightarrow> nat \<Rightarrow> nat \<Rightarrow> 'g world
     \<Rightarrow> (image list \<times> dataframe) \<times> 'g world" where
  "load_images sk np n_scalars n_angles img_size w =
     (let w1 = logging_info ''Generating dataset of synthetic images.'' w;
          img = transform_resize sk (data_camera sk) (img_size, img_size);
          ((images, angles, scalars), g') =
             angles_loop sk np img n_scalars n_angles [0..<n_angles] (([], [], []), rng w1)
      in ((images, [(''angles'', angles), (''scalars'', scalars)]), w1\<lparr>rng := g'\<rparr>))"

text \<open>
  \<^verbatim>\<open>load_projections\<close>: \<^verbatim>\<open>np.sum(images, axis=-1)\<close> sums every row of every image.
\<close>

definition load_projections ::
  "skimage \<Rightarrow> 'g numpy \<Rightarrow> nat \<Rightarrow> nat \<Rightarrow> nat \<Rightarrow> 'g world
     \<Rightarrow> (real list list \<times> dataframe) \<times> 'g world" where
  "load_projections sk np n_scalars n_angles img_size w =
     (let ((images, labels), w') = load_images sk np n_scalars n_angles img_size w;
          projections = map (map sum_list) images
      in ((projections, labels), w'))"

text \<open>
  \<^verbatim>\<open>load_place_cells\<close>. An assignment \<^verbatim>\<open>cell_firings[i] = ...\<close> takes a Python
  index: a negative one counts from the end, and one outside the array raises
  \<^verbatim>\<open>IndexError\<close>. Each of the five branches of the source is five such assignments, each
  of a Poisson draw; \<open>firing_pattern\<close> lists the index and the rate of each, in the order
  of the source, and \<open>fire\<close> carries them out on the row of zeros.
\<close>

definition setitem :: "real list \<Rightarrow> int \<Rightarrow> real \<Rightarrow> py_error + real list" where
  "setitem a i v =
     (let n = int (length a); j = (if i < 0 then n + i else i)
      in if 0 \<le> j \<and> j < n then Inr (a[nat j := v]) else Inl IndexError)"

definition firing_pattern :: "nat \<Rightarrow> nat \<Rightarrow> (int \<times> real) list" where
  "firing_pattern n_cells i_cell =
     (if i_cell = 0
      then [(- 2, 1.0), (- 1, 2.0), (0, 4.0), (1, 2.0), (2, 1.0)]
      else if i_cell = 1
      then [(- 1, 1.0), (0, 2.0), (1, 4.0), (2, 2.0), (3, 1.0)]
      else if int i_cell = int n_cells - 2
      then [(- 4, 1.0), (- 3, 2.0), (- 2, 4.0), (- 1, 2.0), (0, 1.0)]
      else if int i_cell = int n_cells - 1
      then [(- 3, 1.0), (- 2, 2.0), (- 1, 4.0), (0, 2.0), (1, 1.0)]
      else [(int i_cell - 2, 1.0), (int i_cell - 1, 2.0), (int i_cell, 4.0),
            (int i_cell + 1, 2.0), (int i_cell - 3, 1.0)])"

fun fire ::
  "'g numpy \<Rightarrow> (int \<times> real) list \<Rightarrow> real list \<Rightarrow> 'g \<Rightarrow> py_error + (real list \<times> 'g)" where
  "fire np [] cell_firings g = Inr (cell_firings, g)"
| "fire np ((i, lam) # rest) cell_firings g =
     (let (n, g') = random_poisson np lam g
      in case setitem cell_firings i (real n) of
           Inl e \<Rightarrow> Inl e
         | Inr cell_firings' \<Rightarrow> fire np rest cell_firings' g')"

fun cells_loop ::
  "'g numpy \<Rightarrow> nat \<Rightarrow> nat list \<Rightarrow> (real list list \<times> real list) \<times> 'g
     \<Rightarrow> py_error + ((real list list \<times> real list) \<times> 'g)" where
  "cells_loop np n_cells [] st = Inr st"
| "cells_loop np n_cells (i_cell # rest) ((place_cells, labels), g) =
     (case fire np (firing_pattern n_cells i_cell) (replicate n_cells 0) g of
        Inl e \<Rightarrow> Inl e
      | Inr (cell_firings, g') \<Rightarrow>
          cells_loop np n_cells rest
            ((place_cells @ [cell_firings],
              labels @ [real i_cell / real n_cells * 360]), g'))"

fun firings_loop ::
  "'g numpy \<Rightarrow> nat \<Rightarrow> nat list \<Rightarrow> (real list list \<times> real list) \<times> 'g
     \<Rightarrow> py_error + ((real list list \<times> real list) \<times> 'g)" where
  "firings_loop np n_cells [] st = Inr st"
| "firings_loop np n_cells (_ # rest) st =
     (case cells_loop np n_cells [0..<n_cells] st of
        Inl e \<Rightarrow> Inl e
      | Inr st' \<Rightarrow> firings_loop np n_cells rest st')"

text \<open>
  \<^verbatim>\<open>int(n_times / n_cells)\<close> is a float division cut to an integer; for counts of the
  size an array can have it is the integer quotient. Dividing by \<^verbatim>\<open>n_cells = 0\<close>
  raises.
\<close>

definition load_place_cells ::
  "'g numpy \<Rightarrow> nat \<Rightarrow> nat \<Rightarrow> 'g world
     \<Rightarrow> py_error + ((real list list \<times> dataframe) \<times> 'g world)" where
  "load_place_cells np n_times n_cells w =
     (if n_cells = 0 then Inl ZeroDivisionError
      else
        (let n_firing_per_cell = n_times div n_cells
         in case firings_loop np n_cells [0..<n_firing_per_cell] (([], []), rng w) of
              Inl e \<Rightarrow> Inl e
            | Inr ((place_cells, labels), g') \<Rightarrow>
                Inr ((place_cells, [(''angles'', labels)]), w\<lparr>rng := g'\<rparr>)))"

section \<open>Rate maps: \<^verbatim>\<open>piRNNs/dual_agent/visualize.py\<close>\<close>

text \<open>
  \<^verbatim>\<open>compute_ratemaps\<close> and \<^verbatim>\<open>compute_ratemaps_single_agent\<close>, from the binning loop
  on. An array is a nested list: \<^verbatim>\<open>counts\<close> has shape \<^verbatim>\<open>[res, res]\<close>,
  \<^verbatim>\<open>activations\<close> \<^verbatim>\<open>[Ng, res, res]\<close> and \<^verbatim>\<open>all_activations\<close>
  \<^verbatim>\<open>[Ng, res, res, n_avg]\<close>. The model and the trajectory generator are collaborators:
  what the loop gets from them is, for each of the \<^verbatim>\<open>n_avg\<close> batches, the samples of
  the batch, each with its coordinates \<^verbatim>\<open>x_batch[i]\<close>, \<^verbatim>\<open>y_batch[i]\<close> in bin units
  and its row \<^verbatim>\<open>g_batch[i, :]\<close> of \<^verbatim>\<open>Ng\<close> activations. Floats are read as reals;
  \<^verbatim>\<open>int(x)\<close> of a coordinate that passed \<^verbatim>\<open>x >= 0\<close> is its floor.
\<close>

type_synonym sample = "real \<times> real \<times> real list"

datatype ndarray =
    Array3 "real list list list"
  | Array4 "real list list list list"

definition update_at2 ::
  "nat \<Rightarrow> nat \<Rightarrow> ('a \<Rightarrow> 'a) \<Rightarrow> 'a list list \<Rightarrow> 'a list list" where
  "update_at2 x y f m = m[x := (m ! x)[y := f (m ! x ! y)]]"

text \<open>Lines 118-125: one sample. A sample outside the box changes nothing.\<close>

definition bin_sample ::
  "nat \<Rightarrow> bool \<Rightarrow> nat \<Rightarrow> sample
     \<Rightarrow> real list list \<times> real list list list \<times> real list list list list
     \<Rightarrow> real list list \<times> real list list list \<times> real list list list list" where
  "bin_sample res all_activations_flag index s st =
     (let (x, y, g_row) = s;
          (counts, activations, all_activations) = st
      in if x \<ge> 0 \<and> x < real res \<and> y \<ge> 0 \<and> y < real res
         then (update_at2 (nat \<lfloor>x\<rfloor>) (nat \<lfloor>y\<rfloor>) (\<lambda>c. c + 1) counts,
               map2 (\<lambda>a gk. update_at2 (nat \<lfloor>x\<rfloor>) (nat \<lfloor>y\<rfloor>) (\<lambda>v. v + gk) a)
                 activations g_row,
               if all_activations_flag
               then map2 (\<lambda>a gk. a[nat \<lfloor>x\<rfloor> :=
                                     update_at2 (nat \<lfloor>y\<rfloor>) index (\<lambda>v. v + gk) (a ! nat \<lfloor>x\<rfloor>)])
                      all_activations g_row
               else all_activations)
         else st)"

fun batches_loop ::
  "nat \<Rightarrow> bool \<Rightarrow> nat \<Rightarrow> sample list list
     \<Rightarrow> real list list \<times> real list list list \<times> real list list list list
     \<Rightarrow> real list list \<times> real list list list \<times> real list list list list" where
  "batches_loop res all_activations_flag index [] st = st"
| "batches_loop res all_activations_flag index (batch # rest) st =
     batches_loop res all_activations_flag (Suc index) rest
       (fold (bin_sample res all_activations_flag index) batch st)"

text \<open>
  Lines 127-130: the normalization. numpy answers a division by zero with \<^verbatim>\<open>inf\<close> or
  \<^verbatim>\<open>nan\<close> and a warning; here it is an error, so that a run in which it happens is
  told apart from one in which it does not.
\<close>

definition divide_at ::
  "nat \<Rightarrow> nat \<Rightarrow> real \<Rightarrow> real list list list \<Rightarrow> py_error + real list list list" where
  "divide_at x y c activations =
     (if c = 0 then Inl ZeroDivisionError
      else Inr (map (update_at2 x y (\<lambda>v. v / c)) activations))"

fun normalize_row ::
  "real list list \<Rightarrow> nat \<Rightarrow> nat list \<Rightarrow> real list list list
     \<Rightarrow> py_error + real list list list" where
  "normalize_row counts x [] activations = Inr activations"
| "normalize_row counts x (y # ys) activations =
     (if counts ! x ! y > 0
      then (case divide_at x y (counts ! x ! y) activations of
              Inl e \<Rightarrow> Inl e
            | Inr activations' \<Rightarrow> normalize_row counts x ys activations')
      else normalize_row counts x ys activations)"

fun normalize ::
  "real list list \<Rightarrow> nat \<Rightarrow> nat list \<Rightarrow> real list list list
     \<Rightarrow> py_error + real list list list" where
  "normalize counts res [] activations = Inr activations"
| "normalize counts res (x # xs) activations =
     (case normalize_row counts x [0..<res] activations of
        Inl e \<Rightarrow> Inl e
      | Inr activations' \<Rightarrow> normalize counts res xs activations')"

text \<open>
  \<^verbatim>\<open>compute_ratemaps\<close> returns \<^verbatim>\<open>activations, rate_map, g, pos\<close>; the last two are
  the collaborators' batches stacked and are left out. \<^verbatim>\<open>rate_map\<close> is
  \<^verbatim>\<open>activations.reshape(Ng, -1)\<close>, taken before \<^verbatim>\<open>activations\<close> is replaced by
  \<^verbatim>\<open>all_activations\<close> under the flag.
\<close>

definition compute_ratemaps ::
  "nat \<Rightarrow> nat \<Rightarrow> bool \<Rightarrow> sample list list \<Rightarrow> py_error + (ndarray \<times> real list list)" where
  "compute_ratemaps res Ng all_activations_flag batches =
     (let n_avg = length batches;
          activations = replicate Ng (replicate res (replicate res 0));
          all_activations = replicate Ng (replicate res (replicate res (replicate n_avg 0)));
          counts = replicate res (replicate res 0);
          (counts, activations, all_activations) =
             batches_loop res all_activations_flag 0 batches
               (counts, activations, all_activations)
      in case normalize counts res [0..<res] activations of
           Inl e \<Rightarrow> Inl e
         | Inr activations \<Rightarrow>
             (let rate_map = map concat activations
              in Inr (if all_activations_flag then Array4 all_activations
                      else Array3 activations,
                      rate_map)))"

text \<open>The single-agent variant is the same loop without \<^verbatim>\<open>all_activations\<close>.\<close>

definition bin_sample_single_agent ::
  "nat \<Rightarrow> sample \<Rightarrow> real list list \<times> real list list list
     \<Rightarrow> real list list \<times> real list list list" where
  "bin_sample_single_agent res s st =
     (let (x, y, g_row) = s;
          (counts, activations) = st
      in if x \<ge> 0 \<and> x < real res \<and> y \<ge> 0 \<and> y < real res
         then (update_at2 (nat \<lfloor>x\<rfloor>) (nat \<lfloor>y\<rfloor>) (\<lambda>c. c + 1) counts,
               map2 (\<lambda>a gk. update_at2 (nat \<lfloor>x\<rfloor>) (nat \<lfloor>y\<rfloor>) (\<lambda>v. v + gk) a)
                 activations g_row)
         else st)"

definition compute_ratemaps_single_agent ::
  "nat \<Rightarrow> nat \<Rightarrow> sample list list
     \<Rightarrow> py_error + (real list list list \<times> real list list)" where
  "compute_ratemaps_single_agent res Ng batches =
     (let activations = replicate Ng (replicate res (replicate res 0));
          counts = replicate res (replicate res 0);
          (counts, activations) =
             fold (\<lambda>batch st. fold (bin_sample_single_agent res) batch st) batches
               (counts, activations)
      in case normalize counts res [0..<res] activations of
           Inl e \<Rightarrow> Inl e
         | Inr activations \<Rightarrow>
             (let rate_map = map concat activations
              in Inr (activations, rate_map)))"

text \<open>
  A sample visits the bin \<open>(bx, by)\<close> when it passes the test of line 120 and
  \<^verbatim>\<open>int(x)\<close>, \<^verbatim>\<open>int(y)\<close> are \<open>bx\<close>, \<open>by\<close>: those are the samples for which
  lines 121-125 touch the bin.
\<close>

definition visits :: "nat \<Rightarrow> sample \<Rightarrow> nat \<Rightarrow> nat \<Rightarrow> bool" where
  "visits res s bx by = (case s of (x, y, g_row) \<Rightarrow>
     x \<ge> 0 \<and> x < real res \<and> y \<ge> 0 \<and> y < real res \<and> nat \<lfloor>x\<rfloor> = bx \<and> nat \<lfloor>y\<rfloor> = by)"

section \<open>Curvature evaluation\<close>

text \<open>
  C6. \<^verbatim>\<open>evaluate_curvature\<close> computes the true mean curvature, logs its figure, computes
  the learned-versus-true error and logs it exactly when the dataset name is one of
  \<^verbatim>\<open>s1_synthetic\<close>, \<^verbatim>\<open>s2_synthetic\<close>, \<^verbatim>\<open>t2_synthetic\<close>; it computes the learned
  mean curvature and logs its figure for every dataset name.
\<close>

theorem evaluate_curvature_dispatch:
  "(Compute_mean_curvature_true \<in> set (evaluate_curvature dataset_name)
      = (dataset_name \<in> {''s1_synthetic'', ''s2_synthetic'', ''t2_synthetic''}))
   \<and> (Wandb_log ''fig_curv_norms_true'' \<in> set (evaluate_curvature dataset_name)
      = (dataset_name \<in> {''s1_synthetic'', ''s2_synthetic'', ''t2_synthetic''}))
   \<and> (Compute_error \<in> set (evaluate_curvature dataset_name)
      = (dataset_name \<in> {''s1_synthetic'', ''s2_synthetic'', ''t2_synthetic''}))
   \<and> (Wandb_log ''curvature_error'' \<in> set (evaluate_curvature dataset_name)
      = (dataset_name \<in> {''s1_synthetic'', ''s2_synthetic'', ''t2_synthetic''}))
   \<and> Compute_mean_curvature_learned \<in> set (evaluate_curvature dataset_name)
   \<and> Wandb_log ''fig_curv_norms_learned'' \<in> set (evaluate_curvature dataset_name)"
  by (simp add: evaluate_curvature_def synthetic_datasets_def)

section \<open>The training loop reads an unassigned learning rate\<close>

lemma set_param_group_lr_None:
  "groups \<noteq> [] \<Longrightarrow> set_param_group_lr None groups = Inl (UnboundLocalError ''lr'')"
  by (cases groups) simp_all

text \<open>
  C2 (the code does not do this). The claim is that a run from step 1 gives every
  parameter group a defined learning rate at each of its \<^verbatim>\<open>num_steps_train\<close> steps
  and completes. In the code the first step already reads \<^verbatim>\<open>lr\<close> before anything has
  assigned it: whenever there is a step to run and the optimizer has a parameter group,
  the run ends in \<^verbatim>\<open>UnboundLocalError\<close>, with no optimizer update made.
\<close>

theorem train_and_evaluate_unbound_lr:
  assumes "starting_step self = 1" and "1 \<le> num_steps_train config"
    and "param_groups self \<noteq> []"
  shows "train_and_evaluate config self = Inl (UnboundLocalError ''lr'')"
proof -
  have steps: "[starting_step self .. num_steps_train config + starting_step self - 1]
                 = 1 # [2 .. num_steps_train config]"
    using assms(1,2) by (simp add: upto_rec1)
  have "training_step config 1 (None, self) = Inl (UnboundLocalError ''lr'')"
    using assms(3) by (simp add: training_step_def set_param_group_lr_None)
  then show ?thesis
    by (simp add: train_and_evaluate_def steps)
qed

theorem train_and_evaluate_unbound_lr_witness:
  "starting_step \<lparr>starting_step = 1, param_groups = [0.006], optimizer_steps = 0\<rparr> = 1
   \<and> 1 \<le> num_steps_train \<lparr>num_steps_train = 25000, lr = 0.006\<rparr>
   \<and> param_groups \<lparr>starting_step = 1, param_groups = [0.006], optimizer_steps = 0\<rparr> \<noteq> []
   \<and> train_and_evaluate \<lparr>num_steps_train = 25000, lr = 0.006\<rparr>
        \<lparr>starting_step = 1, param_groups = [0.006], optimizer_steps = 0\<rparr>
      = Inl (UnboundLocalError ''lr'')"
  using train_and_evaluate_unbound_lr
    [of "\<lparr>starting_step = 1, param_groups = [0.006], optimizer_steps = 0\<rparr>"
        "\<lparr>num_steps_train = 25000, lr = 0.006\<rparr>"]
  by simp

section \<open>The isometry configuration does not load\<close>

text \<open>
  With the comma that line 54 lacks, the argument list of \<^verbatim>\<open>config.model\<close> reads into
  the sixteen hyperparameters with the values written in the file.
\<close>

lemma model_args_with_comma:
  "d (model_args_to_x_star @ [Comma] @ model_args_from_sigma_star) =
     Inr (PDict
       [(''trans_type'', PStr ''nonlinear_simple''), (''rnn_step'', PInt 10),
        (''num_grid'', PInt 40), (''num_neurons'', PInt 1800), (''block_size'', PInt 12),
        (''sigma'', PFloat 0.07), (''w_kernel'', PFloat 1.05), (''w_trans'', PFloat 0.1),
        (''w_isometry'', PFloat 0.005), (''w_reg_u'', PFloat 0.2),
        (''reg_decay_until'', PInt 15000), (''adaptive_dr'', PBool True),
        (''s_0'', PFloat 0.2), (''x_star'', PTensor [0.5, 0.5]),
        (''sigma_star'', PFloat 0.1), (''reward_step'', PInt 20000)])"
  by (simp add: d_def parse_kwargs_def model_args_to_x_star_def model_args_from_sigma_star_def)

text \<open>
  C4 (the code does not do this). The claim is that \<^verbatim>\<open>get_config\<close> returns the
  configuration with its \<^verbatim>\<open>model\<close> sub-dictionary. As the file is written, the
  argument list of \<^verbatim>\<open>config.model = d(...)\<close> is not a Python argument list (two
  keyword arguments follow each other with no comma between them), so the module does not
  compile and \<^verbatim>\<open>get_config\<close> returns nothing: the outcome is \<^verbatim>\<open>SyntaxError\<close>.
\<close>

theorem get_config_raises: "get_config = Inl SyntaxError"
  by (simp add: get_config_def d_def parse_kwargs_def train_args_def data_args_def model_args_def
      model_args_to_x_star_def model_args_from_sigma_star_def)

section \<open>The posterior families of the VAE\<close>

text \<open>
  C1. \<^verbatim>\<open>VAE.reparameterize\<close> dispatches on the posterior type. For \<^verbatim>\<open>"gaussian"\<close>
  the sample \<open>z\<close> is drawn from \<open>q_z\<close>, a Normal with mean \<open>z_mu\<close> and standard
  deviation \<open>exp (0.5 * z_logvar)\<close> coordinate by coordinate. For
  \<^verbatim>\<open>"hyperspherical"\<close> it is drawn from \<open>q_z\<close>, a von Mises-Fisher distribution with
  mean direction \<open>z_mu\<close> and concentration \<open>z_kappa\<close>, and the prior returned with it
  is the hyperspherical uniform distribution of dimension \<open>latent_dim - 1\<close>. In both
  cases the generator state after the call is the one the draw left.
\<close>

theorem reparameterize_dispatch:
  "(posterior_type self = ''gaussian'' \<longrightarrow>
      reparameterize rsample self (z_mu, z_logvar) g =
        (let z_std = map (map (\<lambda>v. exp (0.5 * v))) z_logvar;
             q_z = Normal z_mu z_std
         in Inr ((fst (rsample q_z g), q_z, Normal (ones_like z_mu) (ones_like z_std)),
                 snd (rsample q_z g))))
   \<and> (posterior_type self = ''hyperspherical'' \<longrightarrow>
      reparameterize rsample self (z_mu, z_kappa) g =
        (let q_z = VonMisesFisher z_mu z_kappa
         in Inr ((fst (rsample q_z g), q_z, HypersphericalUniform (latent_dim self - 1)),
                 snd (rsample q_z g))))"
  by (simp add: reparameterize_def Let_def split_beta ones_like_def comp_def)

theorem reparameterize_dispatch_witness:
  "posterior_type \<lparr>data_dim = 2, latent_dim = 2, posterior_type = ''gaussian'',
       encoder_fc = (\<lambda>x. x), encoder_linears = [], fc_z_mu = (\<lambda>h. h),
       fc_z_logvar = (\<lambda>h. h)\<rparr> = ''gaussian''
   \<and> reparameterize (\<lambda>q g. ([[3, 4]], Suc g))
        \<lparr>data_dim = 2, latent_dim = 2, posterior_type = ''gaussian'',
         encoder_fc = (\<lambda>x. x), encoder_linears = [], fc_z_mu = (\<lambda>h. h),
         fc_z_logvar = (\<lambda>h. h)\<rparr> ([[5, 6]], [[0, 0]]) (0::nat)
      = Inr (([[3, 4]], Normal [[5, 6]] [[1, 1]], Normal [[1, 1]] [[1, 1]]), 1)
   \<and> posterior_type \<lparr>data_dim = 2, latent_dim = 3, posterior_type = ''hyperspherical'',
       encoder_fc = (\<lambda>x. x), encoder_linears = [], fc_z_mu = (\<lambda>h. h),
       fc_z_logvar = (\<lambda>h. h)\<rparr> = ''hyperspherical''
   \<and> reparameterize (\<lambda>q g. ([[0, 0, 1]], Suc g))
        \<lparr>data_dim = 2, latent_dim = 3, posterior_type = ''hyperspherical'',
         encoder_fc = (\<lambda>x. x), encoder_linears = [], fc_z_mu = (\<lambda>h. h),
         fc_z_logvar = (\<lambda>h. h)\<rparr> ([[0, 0, 1]], [[2]]) (0::nat)
      = Inr (([[0, 0, 1]], VonMisesFisher [[0, 0, 1]] [[2]], HypersphericalUniform 2), 1)"
  using reparameterize_dispatch
    [where self = "\<lparr>data_dim = 2, latent_dim = 2, posterior_type = ''gaussian'',
         encoder_fc = (\<lambda>x. x), encoder_linears = [], fc_z_mu = (\<lambda>h. h),
         fc_z_logvar = (\<lambda>h. h)\<rparr>" and rsample = "\<lambda>q g. ([[3, 4]], Suc g)"
       and z_mu = "[[5, 6]]" and z_logvar = "[[0, 0]]" and g = "0::nat"]
    reparameterize_dispatch
    [where self = "\<lparr>data_dim = 2, latent_dim = 3, posterior_type = ''hyperspherical'',
         encoder_fc = (\<lambda>x. x), encoder_linears = [], fc_z_mu = (\<lambda>h. h),
         fc_z_logvar = (\<lambda>h. h)\<rparr>" and rsample = "\<lambda>q g. ([[0, 0, 1]], Suc g)"
       and z_mu = "[[0, 0, 1]]" and z_kappa = "[[2]]" and g = "0::nat"]
  by (simp add: ones_like_def Let_def)

text \<open>
  C8. For \<^verbatim>\<open>"gaussian"\<close>, the prior \<open>p_z\<close> returned with the sample is a Normal
  whose mean has the shape of \<open>z_mu\<close> and is 1 in every coordinate, and whose standard
  deviation has the shape of \<open>z_logvar\<close> and is 1 in every coordinate. As soon as the
  latent tensor has a coordinate, that mean differs from the zero mean of a standard
  normal prior.
\<close>

theorem gaussian_prior_is_ones:
  assumes "posterior_type self = ''gaussian''"
  shows "\<exists>z q_z mean std g'.
           reparameterize rsample self (z_mu, z_logvar) g
             = Inr ((z, q_z, Normal mean std), g')
         \<and> map length mean = map length z_mu
         \<and> map length std = map length z_logvar
         \<and> (\<forall>row \<in> set mean. \<forall>v \<in> set row. v = 1)
         \<and> (\<forall>row \<in> set std. \<forall>v \<in> set row. v = 1)
         \<and> (concat z_mu \<noteq> [] \<longrightarrow> mean \<noteq> map (map (\<lambda>_. 0)) z_mu)"
proof -
  have ne: "map (map (\<lambda>_. 1::real)) z_mu \<noteq> map (map (\<lambda>_. 0)) z_mu" if "concat z_mu \<noteq> []"
  proof
    assume eq: "map (map (\<lambda>_. 1::real)) z_mu = map (map (\<lambda>_. 0)) z_mu"
    from that obtain row where row: "row \<in> set z_mu" "row \<noteq> []" by auto
    from eq row(1) have "map (\<lambda>_. 1::real) row = map (\<lambda>_. 0) row" by simp
    with row(2) show False by (cases row) simp_all
  qed
  show ?thesis
    using assms ne
    by (auto simp: reparameterize_def Let_def split_beta ones_like_def comp_def)
qed

theorem gaussian_prior_is_ones_witness:
  "posterior_type \<lparr>data_dim = 2, latent_dim = 2, posterior_type = ''gaussian'',
       encoder_fc = (\<lambda>x. x), encoder_linears = [], fc_z_mu = (\<lambda>h. h),
       fc_z_logvar = (\<lambda>h. h)\<rparr> = ''gaussian''
   \<and> concat [[5, 6::real]] \<noteq> []
   \<and> (\<exists>z q_z mean std g'.
         reparameterize (\<lambda>q g. ([[3, 4]], Suc g))
           \<lparr>data_dim = 2, latent_dim = 2, posterior_type = ''gaussian'',
            encoder_fc = (\<lambda>x. x), encoder_linears = [], fc_z_mu = (\<lambda>h. h),
            fc_z_logvar = (\<lambda>h. h)\<rparr> ([[5, 6]], [[0, 0]]) (0::nat)
           = Inr ((z, q_z, Normal mean std), g')
       \<and> mean = [[1, 1]] \<and> std = [[1, 1]] \<and> mean \<noteq> [[0, 0]])"
proof -
  have h: "posterior_type \<lparr>data_dim = 2, latent_dim = 2, posterior_type = ''gaussian'',
       encoder_fc = (\<lambda>x. x), encoder_linears = [], fc_z_mu = (\<lambda>h. h),
       fc_z_logvar = (\<lambda>h. h)\<rparr> = ''gaussian''" by simp
  from gaussian_prior_is_ones [OF h, where rsample = "\<lambda>q g. ([[3, 4]], Suc g)"
      and z_mu = "[[5, 6]]" and z_logvar = "[[0, 0]]" and g = "0::nat"]
  obtain z q_z mean std g' where
    r: "reparameterize (\<lambda>q g. ([[3, 4]], Suc g))
           \<lparr>data_dim = 2, latent_dim = 2, posterior_type = ''gaussian'',
            encoder_fc = (\<lambda>x. x), encoder_linears = [], fc_z_mu = (\<lambda>h. h),
            fc_z_logvar = (\<lambda>h. h)\<rparr> ([[5, 6]], [[0, 0]]) (0::nat)
           = Inr ((z, q_z, Normal mean std), g')"
    and len: "map length mean = map length [[5, 6::real]]"
             "map length std = map length [[0, 0::real]]"
    and ones: "\<forall>row \<in> set mean. \<forall>v \<in> set row. v = 1" "\<forall>row \<in> set std. \<forall>v \<in> set row. v = 1"
    and nz: "concat [[5, 6::real]] \<noteq> [] \<longrightarrow> mean \<noteq> map (map (\<lambda>_. 0)) [[5, 6::real]]"
    by blast
  from len(1) ones(1) have m: "mean = [[1, 1]]"
    by (auto simp: map_eq_Cons_conv length_Suc_conv)
  from len(2) ones(2) have s: "std = [[1, 1]]"
    by (auto simp: map_eq_Cons_conv length_Suc_conv)
  from r m s show ?thesis by auto
qed

section \<open>Unrecognized names raise\<close>

text \<open>
  C3. A dataset name outside the five known names makes the check of
  \<^verbatim>\<open>default_config.py\<close> raise \<^verbatim>\<open>ValueError\<close>: for a configuration that lists just
  that name the message names it, and for any list that holds it the check raises for an
  unrecognized name of the list (the first one met). A posterior type outside
  \<^verbatim>\<open>gaussian\<close>, \<^verbatim>\<open>hyperspherical\<close>, \<^verbatim>\<open>toroidal\<close> makes \<^verbatim>\<open>train_test_model\<close>
  raise before any training (whatever the training routine is), and makes
  \<^verbatim>\<open>VAE.encode\<close> raise: both end in \<^verbatim>\<open>UnboundLocalError\<close>, none returns a result.
\<close>

theorem unrecognized_configuration_raises:
  "(one_dataset_name \<notin> {''s1_synthetic'', ''s2_synthetic'', ''t2_synthetic'',
                          ''experimental'', ''grid_cells''} \<longrightarrow>
      check_dataset_name [one_dataset_name]
        = Inl (ValueError (''Dataset name '' @ one_dataset_name @ '' not recognized.''))
      \<and> (one_dataset_name \<in> set names \<longrightarrow>
           (\<exists>bad. bad \<in> set names
              \<and> bad \<notin> {''s1_synthetic'', ''s2_synthetic'', ''t2_synthetic'',
                         ''experimental'', ''grid_cells''}
              \<and> check_dataset_name names
                  = Inl (ValueError (''Dataset name '' @ bad @ '' not recognized.'')))))
   \<and> (posterior_type self \<notin> {''gaussian'', ''hyperspherical'', ''toroidal''} \<longrightarrow>
        train_test_model train_test (posterior_type self) = Inl (UnboundLocalError ''model'')
      \<and> encode self x = Inl (UnboundLocalError ''posterior_params''))"
proof -
  have first: "\<exists>bad. bad \<in> set names \<and> bad \<notin> set recognized_datasets
           \<and> check_dataset_name names = Inl (ValueError (not_recognized_msg bad))"
    if "n \<in> set names" "n \<notin> set recognized_datasets" for n
    using that by (induction names) auto
  show ?thesis
    using first [of one_dataset_name]
    by (auto simp: recognized_datasets_def not_recognized_msg_def train_test_model_def
        encode_def Let_def)
qed

theorem unrecognized_configuration_raises_witness:
  "''torus'' \<notin> {''s1_synthetic'', ''s2_synthetic'', ''t2_synthetic'',
                  ''experimental'', ''grid_cells''}
   \<and> check_dataset_name [''torus'']
        = Inl (ValueError ''Dataset name torus not recognized.'')
   \<and> ''torus'' \<in> set [''experimental'', ''torus'']
   \<and> check_dataset_name [''experimental'', ''torus'']
        = Inl (ValueError ''Dataset name torus not recognized.'')
   \<and> posterior_type \<lparr>data_dim = 2, latent_dim = 2, posterior_type = ''laplace'',
       encoder_fc = (\<lambda>x. x), encoder_linears = [], fc_z_mu = (\<lambda>h. h),
       fc_z_logvar = (\<lambda>h. h)\<rparr> \<notin> {''gaussian'', ''hyperspherical'', ''toroidal''}
   \<and> train_test_model (\<lambda>m. Inr m) ''laplace'' = Inl (UnboundLocalError ''model'')
   \<and> encode \<lparr>data_dim = 2, latent_dim = 2, posterior_type = ''laplace'',
       encoder_fc = (\<lambda>x. x), encoder_linears = [], fc_z_mu = (\<lambda>h. h),
       fc_z_logvar = (\<lambda>h. h)\<rparr> [[1, 2]] = Inl (UnboundLocalError ''posterior_params'')"
  using unrecognized_configuration_raises
    [where one_dataset_name = "''torus''" and names = "[''experimental'', ''torus'']"
       and self = "\<lparr>data_dim = 2, latent_dim = 2, posterior_type = ''laplace'',
         encoder_fc = (\<lambda>x. x), encoder_linears = [], fc_z_mu = (\<lambda>h. h),
         fc_z_logvar = (\<lambda>h. h)\<rparr>" and train_test = "\<lambda>m. Inr m" and x = "[[1, 2]]"]
  by (simp add: recognized_datasets_def not_recognized_msg_def)

section \<open>The synthetic image generator\<close>

text \<open>Blocks of one length laid end to end: where the entry \<open>j\<close> of block \<open>i\<close> ends up.\<close>

lemma length_concat_uniform:
  "(\<forall>xs \<in> set xss. length xs = m) \<Longrightarrow> length (concat xss) = length xss * m"
  by (induction xss) simp_all

lemma nth_concat_uniform:
  "(\<forall>xs \<in> set xss. length xs = m) \<Longrightarrow> i < length xss \<Longrightarrow> j < m
     \<Longrightarrow> concat xss ! (i * m + j) = xss ! i ! j"
proof (induction xss arbitrary: i)
  case Nil
  then show ?case by simp
next
  case (Cons x xss)
  show ?case
  proof (cases i)
    case 0
    with Cons.prems show ?thesis by (simp add: nth_append)
  next
    case (Suc i')
    with Cons.prems have "concat xss ! (i' * m + j) = xss ! i' ! j"
      by (intro Cons.IH) simp_all
    moreover have "length x = m" using Cons.prems by simp
    ultimately show ?thesis using Suc by (simp add: nth_append)
  qed
qed

text \<open>What the two loops of \<^verbatim>\<open>load_images\<close> add to the three lists.\<close>

lemma scalars_loop_result:
  "scalars_loop sk np rot_image angle ks ((images, angles, scalars), g) = ((images', angles', scalars'), g')
     \<Longrightarrow> length images' = length images + length ks
       \<and> angles' = angles @ replicate (length ks) angle
       \<and> scalars' = scalars @ map (\<lambda>k. 1 + 0.2 * real k) ks"
proof (induction ks arbitrary: images angles scalars g)
  case Nil
  then show ?case by simp
next
  case (Cons k ks)
  from Cons.prems show ?case
    by (auto simp: Let_def split_beta replicate_app_Cons_same dest!: Cons.IH)
qed

lemma angles_loop_result:
  "angles_loop sk np img n_scalars n_angles ks ((images, angles, scalars), g) = ((images', angles', scalars'), g')
     \<Longrightarrow> length images' = length images + length ks * n_scalars
       \<and> angles' = angles @ concat (map (\<lambda>k. replicate n_scalars (360 * real k / real n_angles)) ks)
       \<and> scalars' = scalars @ concat (map (\<lambda>k. map (\<lambda>j. 1 + 0.2 * real j) [0..<n_scalars]) ks)"
proof (induction ks arbitrary: images angles scalars g)
  case Nil
  then show ?case by simp
next
  case (Cons k ks)
  obtain images1 angles1 scalars1 g1 where
    inner: "scalars_loop sk np (transform_rotate sk img (360 * real k / real n_angles))
              (360 * real k / real n_angles) [0..<n_scalars] ((images, angles, scalars), g)
            = ((images1, angles1, scalars1), g1)"
    by (metis prod.exhaust)
  from Cons.prems inner
  have rest: "angles_loop sk np img n_scalars n_angles ks ((images1, angles1, scalars1), g1)
              = ((images', angles', scalars'), g')"
    by (simp add: Let_def)
  from scalars_loop_result [OF inner] Cons.IH [OF rest]
  show ?case by simp
qed


text \<open>
  C5. \<^verbatim>\<open>load_images\<close> returns \<open>n_scalars * n_angles\<close> images and a label table of
  the two columns \<^verbatim>\<open>angles\<close> and \<^verbatim>\<open>scalars\<close>, each of that length. The row made
  for the indices \<open>(i_angle, i_scalar)\<close> is row \<open>i_angle * n_scalars + i_scalar\<close>, and
  carries the angle \<open>360 * i_angle / n_angles\<close> and the scalar \<open>1 + 0.2 * i_scalar\<close>.
  \<^verbatim>\<open>load_projections\<close> returns the same label table, and as projections every image
  summed over its last axis. This holds for all counts, those from 1 on included.
\<close>

theorem load_images_labels:
  "\<exists>images angles scalars w'.
       load_images sk np n_scalars n_angles img_size w
         = ((images, [(''angles'', angles), (''scalars'', scalars)]), w')
     \<and> length images = n_scalars * n_angles
     \<and> length angles = n_scalars * n_angles
     \<and> length scalars = n_scalars * n_angles
     \<and> (\<forall>i_angle < n_angles. \<forall>i_scalar < n_scalars.
            angles ! (i_angle * n_scalars + i_scalar) = 360 * real i_angle / real n_angles
          \<and> scalars ! (i_angle * n_scalars + i_scalar) = 1 + 0.2 * real i_scalar)
     \<and> load_projections sk np n_scalars n_angles img_size w
         = ((map (map sum_list) images, [(''angles'', angles), (''scalars'', scalars)]), w')"
proof -
  define w1 where "w1 = logging_info ''Generating dataset of synthetic images.'' w"
  define img where "img = transform_resize sk (data_camera sk) (img_size, img_size)"
  obtain images angles scalars g' where
    loop: "angles_loop sk np img n_scalars n_angles [0..<n_angles] (([], [], []), rng w1)
           = ((images, angles, scalars), g')"
    by (metis prod.exhaust)
  let ?A = "map (\<lambda>k. replicate n_scalars (360 * real k / real n_angles)) [0..<n_angles]"
  let ?S = "map (\<lambda>k. map (\<lambda>j. 1 + 0.2 * real j) [0..<n_scalars]) [0..<n_angles]"
  from angles_loop_result [OF loop]
  have len: "length images = n_angles * n_scalars"
    and angles: "angles = concat ?A" and scalars: "scalars = concat ?S"
    by simp_all
  have li: "load_images sk np n_scalars n_angles img_size w
         = ((images, [(''angles'', angles), (''scalars'', scalars)]), w1\<lparr>rng := g'\<rparr>)"
    using loop by (simp add: load_images_def w1_def img_def Let_def)
  have lp: "load_projections sk np n_scalars n_angles img_size w
         = ((map (map sum_list) images, [(''angles'', angles), (''scalars'', scalars)]),
            w1\<lparr>rng := g'\<rparr>)"
    by (simp add: load_projections_def li)
  have la: "length angles = n_scalars * n_angles"
    unfolding angles by (subst length_concat_uniform [where m = n_scalars]) simp_all
  have ls: "length scalars = n_scalars * n_angles"
    unfolding scalars by (subst length_concat_uniform [where m = n_scalars]) simp_all
  have nth: "angles ! (i * n_scalars + j) = 360 * real i / real n_angles
           \<and> scalars ! (i * n_scalars + j) = 1 + 0.2 * real j"
    if "i < n_angles" "j < n_scalars" for i j
  proof -
    have "concat ?A ! (i * n_scalars + j) = ?A ! i ! j"
      using that by (intro nth_concat_uniform) simp_all
    moreover have "concat ?S ! (i * n_scalars + j) = ?S ! i ! j"
      using that by (intro nth_concat_uniform) simp_all
    ultimately show ?thesis using that by (simp add: angles scalars)
  qed
  from li lp len la ls nth show ?thesis
    by (intro exI [of _ images] exI [of _ angles] exI [of _ scalars] exI [of _ "w1\<lparr>rng := g'\<rparr>"])
       (simp add: mult.commute)
qed

theorem load_images_labels_witness:
  "\<exists>images angles scalars w'.
       load_images
         \<lparr>data_camera = [[1]], transform_resize = (\<lambda>i s. i), transform_rotate = (\<lambda>i a. i),
          filters_gaussian = (\<lambda>i s. i)\<rparr>
         \<lparr>random_normal = (\<lambda>loc sc sh g. ([[0]], Suc g)),
          random_poisson = (\<lambda>lam g. (1, Suc g)), float32 = (\<lambda>v. v)\<rparr>
         2 2 1 \<lparr>rng = 0::nat, log_records = []\<rparr>
         = ((images, [(''angles'', angles), (''scalars'', scalars)]), w')
     \<and> length images = 4 \<and> length angles = 4 \<and> length scalars = 4
     \<and> (1::nat) < 2
     \<and> angles ! 3 = 180 \<and> scalars ! 3 = 1.2"
proof -
  from load_images_labels
    [of "\<lparr>data_camera = [[1]], transform_resize = (\<lambda>i s. i), transform_rotate = (\<lambda>i a. i),
          filters_gaussian = (\<lambda>i s. i)\<rparr>"
        "\<lparr>random_normal = (\<lambda>loc sc sh g. ([[0]], Suc g)),
          random_poisson = (\<lambda>lam g. (1, Suc g)), float32 = (\<lambda>v. v)\<rparr>"
        2 2 1 "\<lparr>rng = 0::nat, log_records = []\<rparr>"]
  obtain images angles scalars w' where
    r: "load_images
         \<lparr>data_camera = [[1]], transform_resize = (\<lambda>i s. i), transform_rotate = (\<lambda>i a. i),
          filters_gaussian = (\<lambda>i s. i)\<rparr>
         \<lparr>random_normal = (\<lambda>loc sc sh g. ([[0]], Suc g)),
          random_poisson = (\<lambda>lam g. (1, Suc g)), float32 = (\<lambda>v. v)\<rparr>
         2 2 1 \<lparr>rng = 0::nat, log_records = []\<rparr>
         = ((images, [(''angles'', angles), (''scalars'', scalars)]), w')"
    and len: "length images = 2 * 2" "length angles = 2 * 2" "length scalars = 2 * 2"
    and nth: "\<forall>i_angle < 2. \<forall>i_scalar < 2.
            angles ! (i_angle * 2 + i_scalar) = 360 * real i_angle / real (2::nat)
          \<and> scalars ! (i_angle * 2 + i_scalar) = 1 + 0.2 * real i_scalar"
    by blast
  from nth [rule_format, of 1 1] have "angles ! 3 = 180 \<and> scalars ! 3 = 1.2"
    by simp
  with r len show ?thesis by auto
qed

section \<open>The place-cell generator\<close>

text \<open>
  One assignment into the row changes one entry, so it adds at most one nonzero entry;
  with at least four cells every index of every branch is inside the row.
\<close>

lemma filter_update_le:
  "length (filter P (a[j := v])) \<le> Suc (length (filter P a))"
  by (induction a arbitrary: j) (auto split: nat.splits)

lemma setitem_ok:
  assumes "- int (length a) \<le> i" and "i < int (length a)"
  shows "\<exists>a'. setitem a i v = Inr a' \<and> length a' = length a
           \<and> length (filter (\<lambda>c. c \<noteq> 0) a') \<le> Suc (length (filter (\<lambda>c. c \<noteq> 0) a))"
  using assms by (auto simp: setitem_def Let_def filter_update_le)

lemma fire_ok:
  "(\<forall>(i, lam) \<in> set pat. - int (length a) \<le> i \<and> i < int (length a))
     \<Longrightarrow> \<exists>a' g'. fire np pat a g = Inr (a', g') \<and> length a' = length a
           \<and> length (filter (\<lambda>c. c \<noteq> 0) a') \<le> length (filter (\<lambda>c. c \<noteq> 0) a) + length pat"
proof (induction pat arbitrary: a g)
  case Nil
  then show ?case by simp
next
  case (Cons p pat)
  obtain i lam where p: "p = (i, lam)" by (cases p)
  obtain n g1 where draw: "random_poisson np lam g = (n, g1)" by (cases "random_poisson np lam g")
  from Cons.prems p have "- int (length a) \<le> i" "i < int (length a)" by auto
  from setitem_ok [OF this, of "real n"] obtain a1 where
    a1: "setitem a i (real n) = Inr a1" "length a1 = length a"
        "length (filter (\<lambda>c. c \<noteq> 0) a1) \<le> Suc (length (filter (\<lambda>c. c \<noteq> 0) a))"
    by blast
  from Cons.prems a1(2)
  have "\<forall>(i, lam) \<in> set pat. - int (length a1) \<le> i \<and> i < int (length a1)" by simp
  from Cons.IH [OF this, of g1] obtain a' g' where
    r: "fire np pat a1 g1 = Inr (a', g')" "length a' = length a1"
       "length (filter (\<lambda>c. c \<noteq> 0) a') \<le> length (filter (\<lambda>c. c \<noteq> 0) a1) + length pat"
    by blast
  from p draw a1 r show ?case by simp
qed

lemma firing_pattern_ok:
  "4 \<le> n_cells \<Longrightarrow> i_cell < n_cells
     \<Longrightarrow> length (firing_pattern n_cells i_cell) = 5
       \<and> (\<forall>(i, lam) \<in> set (firing_pattern n_cells i_cell). - int n_cells \<le> i \<and> i < int n_cells)"
  by (auto simp: firing_pattern_def)

text \<open>The loop over the cells, and the loop around it, add rows and labels in step.\<close>

lemma cells_loop_ok:
  "4 \<le> n_cells \<Longrightarrow> \<forall>i \<in> set ks. i < n_cells
     \<Longrightarrow> \<exists>rows labs g'.
           cells_loop np n_cells ks ((place_cells, labels), g)
             = Inr ((place_cells @ rows, labels @ labs), g')
         \<and> length rows = length ks \<and> length labs = length ks
         \<and> (\<forall>row \<in> set rows. length row = n_cells
                \<and> length (filter (\<lambda>c. c \<noteq> 0) row) \<le> 5)"
proof (induction ks arbitrary: place_cells labels g)
  case Nil
  then show ?case by simp
next
  case (Cons k ks)
  from Cons.prems have k: "k < n_cells" by simp
  from firing_pattern_ok [OF Cons.prems(1) k]
  have pat: "length (firing_pattern n_cells k) = 5"
    "\<forall>(i, lam) \<in> set (firing_pattern n_cells k).
        - int (length (replicate n_cells (0::real))) \<le> i
        \<and> i < int (length (replicate n_cells (0::real)))"
    by simp_all
  from fire_ok [OF pat(2), of np g] pat(1) obtain row g1 where
    row: "fire np (firing_pattern n_cells k) (replicate n_cells 0) g = Inr (row, g1)"
         "length row = n_cells" "length (filter (\<lambda>c. c \<noteq> 0) row) \<le> 5"
    by auto
  from Cons.prems have "\<forall>i \<in> set ks. i < n_cells" by simp
  from Cons.IH [OF Cons.prems(1) this, of "place_cells @ [row]"
      "labels @ [real k / real n_cells * 360]" g1]
  obtain rows labs g' where
    r: "cells_loop np n_cells ks
          ((place_cells @ [row], labels @ [real k / real n_cells * 360]), g1)
        = Inr (((place_cells @ [row]) @ rows, (labels @ [real k / real n_cells * 360]) @ labs), g')"
       "length rows = length ks" "length labs = length ks"
       "\<forall>row \<in> set rows. length row = n_cells \<and> length (filter (\<lambda>c. c \<noteq> 0) row) \<le> 5"
    by blast
  from row r show ?case
    by (intro exI [of _ "row # rows"] exI [of _ "(real k / real n_cells * 360) # labs"]
        exI [of _ g']) simp
qed

lemma firings_loop_ok:
  "4 \<le> n_cells
     \<Longrightarrow> \<exists>rows labs g'.
           firings_loop np n_cells us ((place_cells, labels), g)
             = Inr ((place_cells @ rows, labels @ labs), g')
         \<and> length rows = length us * n_cells \<and> length labs = length us * n_cells
         \<and> (\<forall>row \<in> set rows. length row = n_cells
                \<and> length (filter (\<lambda>c. c \<noteq> 0) row) \<le> 5)"
proof (induction us arbitrary: place_cells labels g)
  case Nil
  then show ?case by simp
next
  case (Cons u us)
  have "\<forall>i \<in> set [0..<n_cells]. i < n_cells" by simp
  from cells_loop_ok [OF Cons.prems this, of np place_cells labels g]
  obtain rows1 labs1 g1 where
    one: "cells_loop np n_cells [0..<n_cells] ((place_cells, labels), g)
            = Inr ((place_cells @ rows1, labels @ labs1), g1)"
         "length rows1 = n_cells" "length labs1 = n_cells"
         "\<forall>row \<in> set rows1. length row = n_cells \<and> length (filter (\<lambda>c. c \<noteq> 0) row) \<le> 5"
    by auto
  from Cons.IH [OF Cons.prems, of "place_cells @ rows1" "labels @ labs1" g1]
  obtain rows labs g' where
    r: "firings_loop np n_cells us ((place_cells @ rows1, labels @ labs1), g1)
          = Inr (((place_cells @ rows1) @ rows, (labels @ labs1) @ labs), g')"
       "length rows = length us * n_cells" "length labs = length us * n_cells"
       "\<forall>row \<in> set rows. length row = n_cells \<and> length (filter (\<lambda>c. c \<noteq> 0) row) \<le> 5"
    by blast
  from one r show ?case
    by (intro exI [of _ "rows1 @ rows"] exI [of _ "labs1 @ labs"] exI [of _ g']) auto
qed

text \<open>
  C9. For \<open>n_times \<ge> 1\<close> and \<open>n_cells \<ge> 4\<close>, \<^verbatim>\<open>load_place_cells\<close> returns (no
  index is out of range) a matrix of \<open>(n_times div n_cells) * n_cells\<close> rows, which is
  fewer than \<open>n_times\<close> whenever \<open>n_cells\<close> does not divide \<open>n_times\<close>; each row has
  \<open>n_cells\<close> entries of which at most 5 are nonzero; the label table is the one column
  \<^verbatim>\<open>angles\<close> with one entry per row.
\<close>

theorem load_place_cells_rows:
  assumes "1 \<le> n_times" and "4 \<le> n_cells"
  shows "\<exists>place_cells angles w'.
           load_place_cells np n_times n_cells w
             = Inr ((place_cells, [(''angles'', angles)]), w')
         \<and> length place_cells = (n_times div n_cells) * n_cells
         \<and> (\<not> n_cells dvd n_times \<longrightarrow> length place_cells < n_times)
         \<and> (\<forall>row \<in> set place_cells. length row = n_cells
                \<and> length (filter (\<lambda>c. c \<noteq> 0) row) \<le> 5)
         \<and> length angles = length place_cells"
proof -
  from firings_loop_ok [OF assms(2), of np "[0..<n_times div n_cells]" "[]" "[]" "rng w"]
  obtain rows labs g' where
    r: "firings_loop np n_cells [0..<n_times div n_cells] (([], []), rng w)
          = Inr ((rows, labs), g')"
       "length rows = (n_times div n_cells) * n_cells"
       "length labs = (n_times div n_cells) * n_cells"
       "\<forall>row \<in> set rows. length row = n_cells \<and> length (filter (\<lambda>c. c \<noteq> 0) row) \<le> 5"
    by auto
  have less: "(n_times div n_cells) * n_cells < n_times" if "\<not> n_cells dvd n_times"
  proof -
    have "n_times mod n_cells \<noteq> 0" using that by (simp add: dvd_eq_mod_eq_0)
    moreover have "n_times = (n_times div n_cells) * n_cells + n_times mod n_cells" by simp
    ultimately show ?thesis by linarith
  qed
  from assms(2) r less show ?thesis
    by (intro exI [of _ rows] exI [of _ labs] exI [of _ "w\<lparr>rng := g'\<rparr>"])
       (simp add: load_place_cells_def)
qed

theorem load_place_cells_rows_witness:
  "(1::nat) \<le> 9 \<and> (4::nat) \<le> 4 \<and> \<not> (4::nat) dvd 9
   \<and> (\<exists>place_cells angles w'.
         load_place_cells
           \<lparr>random_normal = (\<lambda>loc sc sh g. ([[0]], Suc g)),
            random_poisson = (\<lambda>lam g. (1, Suc g)), float32 = (\<lambda>v. v)\<rparr>
           9 4 \<lparr>rng = 0::nat, log_records = []\<rparr>
           = Inr ((place_cells, [(''angles'', angles)]), w')
       \<and> length place_cells = 8 \<and> length place_cells < 9 \<and> length angles = 8
       \<and> (\<forall>row \<in> set place_cells. length row = 4
              \<and> length (filter (\<lambda>c. c \<noteq> 0) row) \<le> 5))"
proof -
  have h: "(1::nat) \<le> 9" "(4::nat) \<le> 4" "\<not> (4::nat) dvd 9" by simp_all
  from load_place_cells_rows [OF h(1,2),
      of "\<lparr>random_normal = (\<lambda>loc sc sh g. ([[0]], Suc g)),
            random_poisson = (\<lambda>lam g. (1, Suc g)), float32 = (\<lambda>v. v)\<rparr>"
         "\<lparr>rng = 0::nat, log_records = []\<rparr>"] h(3)
  show ?thesis by auto
qed

section \<open>Rate maps: bins no sample visits\<close>

text \<open>An update of one entry keeps the shape of the array and every other entry.\<close>

lemma map_length_update_at2: "map length (update_at2 x y f m) = map length m"
proof (cases "x < length m")
  case True
  then show ?thesis
    by (simp add: update_at2_def map_update list_update_same_conv)
next
  case False
  then have "m[x := (m ! x)[y := f (m ! x ! y)]] = m"
    by (simp add: not_less list_update_beyond)
  then show ?thesis by (simp add: update_at2_def)
qed

lemma nth_update_at2:
  assumes "bx < length m" and "by < length (m ! bx)"
  shows "update_at2 x y f m ! bx ! by
         = (if bx = x \<and> by = y then f (m ! x ! y) else m ! bx ! by)"
proof (cases "bx = x")
  case True
  with assms show ?thesis by (simp add: update_at2_def nth_list_update)
next
  case False
  then have "m[x := (m ! x)[y := f (m ! x ! y)]] ! bx = m ! bx" by simp
  with False show ?thesis by (simp add: update_at2_def)
qed

lemma shape2D:
  assumes "map length c = replicate n m"
  shows "length c = n" and "bx < n \<Longrightarrow> length (c ! bx) = m"
proof -
  from assms have "length (map length c) = length (replicate n m)" by simp
  then show n: "length c = n" by simp
  show "length (c ! bx) = m" if "bx < n"
  proof -
    from assms have "map length c ! bx = replicate n m ! bx" by simp
    with that n show ?thesis by simp
  qed
qed

lemma shape3D:
  assumes "map (map length) a = replicate Ng (replicate n m)"
  shows "length a = Ng" and "k < Ng \<Longrightarrow> map length (a ! k) = replicate n m"
proof -
  from assms have "length (map (map length) a) = length (replicate Ng (replicate n m))"
    by simp
  then show n: "length a = Ng" by simp
  show "map length (a ! k) = replicate n m" if "k < Ng"
  proof -
    from assms have "map (map length) a ! k = replicate Ng (replicate n m) ! k" by simp
    with that n show ?thesis by simp
  qed
qed


text \<open>
  Binning keeps the shapes of \<^verbatim>\<open>counts\<close> and \<^verbatim>\<open>activations\<close>, and leaves the
  entries of a bin that the samples do not visit as they were: for one sample, for the
  samples of a batch, and for all batches.
\<close>

lemma column_update_shape:
  "length activations = length g_row
     \<Longrightarrow> map (map length) (map2 (\<lambda>a gk. update_at2 ix iy (\<lambda>v. v + gk) a) activations g_row)
         = map (map length) activations"
  by (induction activations g_row rule: list_induct2) (simp_all add: map_length_update_at2)

lemma column_update_nth:
  "length activations = length g_row \<Longrightarrow> k < length activations
     \<Longrightarrow> map2 (\<lambda>a gk. update_at2 ix iy (\<lambda>v. v + gk) a) activations g_row ! k
         = update_at2 ix iy (\<lambda>v. v + g_row ! k) (activations ! k)"
  by simp

lemma bin_sample_frame:
  assumes run: "bin_sample res flag index s (counts, activations, all_activations)
             = (counts', activations', all')"
    and g: "length (snd (snd s)) = Ng"
    and c: "map length counts = replicate res res"
    and a: "map (map length) activations = replicate Ng (replicate res res)"
  shows "map length counts' = replicate res res"
    and "map (map length) activations' = replicate Ng (replicate res res)"
    and "\<not> visits res s bx by \<Longrightarrow> bx < res \<Longrightarrow> by < res
           \<Longrightarrow> counts' ! bx ! by = counts ! bx ! by"
    and "\<not> visits res s bx by \<Longrightarrow> k < Ng \<Longrightarrow> bx < res \<Longrightarrow> by < res
           \<Longrightarrow> activations' ! k ! bx ! by = activations ! k ! bx ! by"
proof -
  obtain x y g_row where s: "s = (x, y, g_row)" by (cases s)
  with g shape3D(1) [OF a] have len: "length activations = length g_row" by simp
  let ?inside = "x \<ge> 0 \<and> x < real res \<and> y \<ge> 0 \<and> y < real res"
  let ?ix = "nat \<lfloor>x\<rfloor>" and ?iy = "nat \<lfloor>y\<rfloor>"
  have out: "counts' = counts \<and> activations' = activations" if "\<not> ?inside"
    using run s that by (auto simp: bin_sample_def)
  have ins: "counts' = update_at2 ?ix ?iy (\<lambda>c. c + 1) counts
      \<and> activations' = map2 (\<lambda>a gk. update_at2 ?ix ?iy (\<lambda>v. v + gk) a) activations g_row"
    if "?inside"
    using run s that by (auto simp: bin_sample_def)
  show "map length counts' = replicate res res"
    using out ins c by (cases "?inside") (simp_all add: map_length_update_at2)
  show "map (map length) activations' = replicate Ng (replicate res res)"
    using out ins a column_update_shape [OF len, of ?ix ?iy] by (cases "?inside") simp_all
  show "counts' ! bx ! by = counts ! bx ! by"
    if "\<not> visits res s bx by" "bx < res" "by < res"
  proof (cases "?inside")
    case False
    with out show ?thesis by simp
  next
    case True
    with that(1) s have ne: "\<not> (bx = ?ix \<and> by = ?iy)" by (auto simp: visits_def)
    from shape2D [OF c] that have "bx < length counts" "by < length (counts ! bx)"
      by simp_all
    from nth_update_at2 [OF this, of ?ix ?iy] ne ins [OF True] show ?thesis by auto
  qed
  show "activations' ! k ! bx ! by = activations ! k ! bx ! by"
    if "\<not> visits res s bx by" "k < Ng" "bx < res" "by < res"
  proof (cases "?inside")
    case False
    with out show ?thesis by simp
  next
    case True
    with that(1) s have ne: "\<not> (bx = ?ix \<and> by = ?iy)" by (auto simp: visits_def)
    from that shape3D [OF a] have k: "k < length activations"
      and ak: "map length (activations ! k) = replicate res res" by simp_all
    from shape2D [OF ak] that have "bx < length (activations ! k)"
      "by < length (activations ! k ! bx)" by simp_all
    from nth_update_at2 [OF this, of ?ix ?iy] ne
    have "update_at2 ?ix ?iy (\<lambda>v. v + g_row ! k) (activations ! k) ! bx ! by
            = activations ! k ! bx ! by"
      by auto
    with ins [OF True] column_update_nth [OF len k, of ?ix ?iy] show ?thesis by simp
  qed
qed


lemma fold_bin_sample_frame:
  assumes "fold (bin_sample res flag index) batch (counts, activations, all_activations)
             = (counts', activations', all')"
    and "\<forall>s \<in> set batch. length (snd (snd s)) = Ng"
    and "map length counts = replicate res res"
    and "map (map length) activations = replicate Ng (replicate res res)"
  shows "map length counts' = replicate res res
       \<and> map (map length) activations' = replicate Ng (replicate res res)
       \<and> ((\<forall>s \<in> set batch. \<not> visits res s bx by) \<longrightarrow> bx < res \<longrightarrow> by < res
            \<longrightarrow> counts' ! bx ! by = counts ! bx ! by
              \<and> (\<forall>k < Ng. activations' ! k ! bx ! by = activations ! k ! bx ! by))"
  using assms
proof (induction batch arbitrary: counts activations all_activations)
  case Nil
  then show ?case by simp
next
  case (Cons s batch)
  obtain c1 a1 al1 where
    one: "bin_sample res flag index s (counts, activations, all_activations) = (c1, a1, al1)"
    by (metis prod.exhaust)
  from Cons.prems(2) have g: "length (snd (snd s)) = Ng" by simp
  note fr = bin_sample_frame [OF one g Cons.prems(3) Cons.prems(4)]
  from Cons.prems(1) one
  have rest: "fold (bin_sample res flag index) batch (c1, a1, al1) = (counts', activations', all')"
    by simp
  from Cons.prems(2) have gs: "\<forall>s \<in> set batch. length (snd (snd s)) = Ng" by simp
  from Cons.IH [OF rest gs fr(1) fr(2)] fr(3) [of bx "by"] fr(4) [of bx "by"]
  show ?case by auto
qed

lemma batches_loop_frame:
  assumes "batches_loop res flag index batches (counts, activations, all_activations)
             = (counts', activations', all')"
    and "\<forall>batch \<in> set batches. \<forall>s \<in> set batch. length (snd (snd s)) = Ng"
    and "map length counts = replicate res res"
    and "map (map length) activations = replicate Ng (replicate res res)"
  shows "map length counts' = replicate res res
       \<and> map (map length) activations' = replicate Ng (replicate res res)
       \<and> ((\<forall>batch \<in> set batches. \<forall>s \<in> set batch. \<not> visits res s bx by)
            \<longrightarrow> bx < res \<longrightarrow> by < res
            \<longrightarrow> counts' ! bx ! by = counts ! bx ! by
              \<and> (\<forall>k < Ng. activations' ! k ! bx ! by = activations ! k ! bx ! by))"
  using assms
proof (induction batches arbitrary: index counts activations all_activations)
  case Nil
  then show ?case by simp
next
  case (Cons batch batches)
  obtain c1 a1 al1 where
    one: "fold (bin_sample res flag index) batch (counts, activations, all_activations)
            = (c1, a1, al1)"
    by (metis prod.exhaust)
  from Cons.prems(2) have g: "\<forall>s \<in> set batch. length (snd (snd s)) = Ng" by simp
  note fr = fold_bin_sample_frame [OF one g Cons.prems(3) Cons.prems(4), of bx "by"]
  from Cons.prems(1) one
  have rest: "batches_loop res flag (Suc index) batches (c1, a1, al1)
                = (counts', activations', all')"
    by simp
  from Cons.prems(2)
  have gs: "\<forall>batch \<in> set batches. \<forall>s \<in> set batch. length (snd (snd s)) = Ng" by simp
  from fr have c1: "map length c1 = replicate res res"
    and a1: "map (map length) a1 = replicate Ng (replicate res res)" by simp_all
  from Cons.IH [OF rest gs c1 a1] fr
  show ?case by auto
qed


text \<open>
  The normalization never fails, keeps the shape, and leaves a bin whose count is not
  positive as it was.
\<close>

lemma normalize_row_frame:
  assumes "map (map length) activations = replicate Ng (replicate res res)"
  shows "\<exists>activations'.
           normalize_row counts x ys activations = Inr activations'
         \<and> map (map length) activations' = replicate Ng (replicate res res)
         \<and> (\<not> counts ! bx ! by > 0 \<longrightarrow> k < Ng \<longrightarrow> bx < res \<longrightarrow> by < res
              \<longrightarrow> activations' ! k ! bx ! by = activations ! k ! bx ! by)"
  using assms
proof (induction ys arbitrary: activations)
  case Nil
  then show ?case by simp
next
  case (Cons y ys)
  show ?case
  proof (cases "counts ! x ! y > 0")
    case False
    with Cons.IH [OF Cons.prems] show ?thesis by simp
  next
    case True
    let ?a1 = "map (update_at2 x y (\<lambda>v. v / counts ! x ! y)) activations"
    have shape: "map (map length) ?a1 = replicate Ng (replicate res res)"
      using Cons.prems by (simp add: comp_def map_length_update_at2)
    have keep: "?a1 ! k ! bx ! by = activations ! k ! bx ! by"
      if "\<not> counts ! bx ! by > 0" "k < Ng" "bx < res" "by < res"
    proof -
      from that shape3D [OF Cons.prems] have k: "k < length activations"
        and ak: "map length (activations ! k) = replicate res res" by simp_all
      from shape2D [OF ak] that have "bx < length (activations ! k)"
        "by < length (activations ! k ! bx)" by simp_all
      with k that(1) True show ?thesis by (auto simp: nth_update_at2)
    qed
    from Cons.IH [OF shape] obtain a' where
      r: "normalize_row counts x ys ?a1 = Inr a'"
         "map (map length) a' = replicate Ng (replicate res res)"
         "\<not> counts ! bx ! by > 0 \<longrightarrow> k < Ng \<longrightarrow> bx < res \<longrightarrow> by < res
              \<longrightarrow> a' ! k ! bx ! by = ?a1 ! k ! bx ! by"
      by blast
    from True r keep show ?thesis by (auto simp: divide_at_def)
  qed
qed

lemma normalize_frame:
  assumes "map (map length) activations = replicate Ng (replicate res res)"
  shows "\<exists>activations'.
           normalize counts res xs activations = Inr activations'
         \<and> map (map length) activations' = replicate Ng (replicate res res)
         \<and> (\<not> counts ! bx ! by > 0 \<longrightarrow> k < Ng \<longrightarrow> bx < res \<longrightarrow> by < res
              \<longrightarrow> activations' ! k ! bx ! by = activations ! k ! bx ! by)"
  using assms
proof (induction xs arbitrary: activations)
  case Nil
  then show ?case by simp
next
  case (Cons x xs)
  from normalize_row_frame [OF Cons.prems, of counts x "[0..<res]" bx "by" k]
  obtain a1 where
    one: "normalize_row counts x [0..<res] activations = Inr a1"
         "map (map length) a1 = replicate Ng (replicate res res)"
         "\<not> counts ! bx ! by > 0 \<longrightarrow> k < Ng \<longrightarrow> bx < res \<longrightarrow> by < res
              \<longrightarrow> a1 ! k ! bx ! by = activations ! k ! bx ! by"
    by blast
  from Cons.IH [OF one(2)] one(1,3) show ?case by auto
qed

text \<open>Where the entry of bin \<open>(bx, by)\<close> ends up in the reshaped rate map.\<close>

lemma rate_map_entry:
  assumes "map (map length) activations = replicate Ng (replicate res res)"
    and "k < Ng" and "bx < res" and "by < res"
  shows "map concat activations ! k ! (bx * res + by) = activations ! k ! bx ! by"
proof -
  from shape3D [OF assms(1)] assms(2) have k: "k < length activations"
    and ak: "map length (activations ! k) = replicate res res" by simp_all
  from ak have rows: "\<forall>row \<in> set (activations ! k). length row = res"
    by (metis in_set_replicate length_map nth_map in_set_conv_nth)
  from shape2D(1) [OF ak] assms(3) have "bx < length (activations ! k)" by simp
  from nth_concat_uniform [OF rows this assms(4)] k show ?thesis by simp
qed


text \<open>The single-agent loop is the dual-agent loop with the flag off.\<close>

lemma bin_sample_single_agent_eq:
  "bin_sample res False index s (counts, activations, all_activations)
     = (case bin_sample_single_agent res s (counts, activations) of
          (counts', activations') \<Rightarrow> (counts', activations', all_activations))"
  by (simp add: bin_sample_def bin_sample_single_agent_def split_beta)

lemma fold_bin_sample_single_agent_eq:
  "fold (bin_sample res False index) batch (counts, activations, all_activations)
     = (case fold (bin_sample_single_agent res) batch (counts, activations) of
          (counts', activations') \<Rightarrow> (counts', activations', all_activations))"
proof (induction batch arbitrary: counts activations)
  case Nil
  then show ?case by simp
next
  case (Cons s batch)
  obtain c1 a1 where one: "bin_sample_single_agent res s (counts, activations) = (c1, a1)"
    by (cases "bin_sample_single_agent res s (counts, activations)")
  then show ?case by (simp add: bin_sample_single_agent_eq Cons.IH)
qed

lemma batches_loop_single_agent_eq:
  "batches_loop res False index batches (counts, activations, all_activations)
     = (case fold (\<lambda>batch st. fold (bin_sample_single_agent res) batch st) batches
               (counts, activations) of
          (counts', activations') \<Rightarrow> (counts', activations', all_activations))"
proof (induction batches arbitrary: index counts activations)
  case Nil
  then show ?case by simp
next
  case (Cons batch batches)
  obtain c1 a1 where
    one: "fold (bin_sample_single_agent res) batch (counts, activations) = (c1, a1)"
    by (cases "fold (bin_sample_single_agent res) batch (counts, activations)")
  then show ?case by (simp add: fold_bin_sample_single_agent_eq Cons.IH)
qed

lemma compute_ratemaps_single_agent_eq:
  "compute_ratemaps res Ng False batches
     = (case compute_ratemaps_single_agent res Ng batches of
          Inl e \<Rightarrow> Inl e
        | Inr (activations, rate_map) \<Rightarrow> Inr (Array3 activations, rate_map))"
  by (simp add: compute_ratemaps_def compute_ratemaps_single_agent_def Let_def
      batches_loop_single_agent_eq split_beta split: sum.split)

lemma compute_ratemaps_unvisited:
  assumes g: "\<forall>batch \<in> set batches. \<forall>s \<in> set batch. length (snd (snd s)) = Ng"
  shows "\<exists>activations rate_map.
           compute_ratemaps res Ng flag batches = Inr (activations, rate_map)
         \<and> length rate_map = Ng
         \<and> (\<forall>bx < res. \<forall>by < res.
              (\<forall>batch \<in> set batches. \<forall>s \<in> set batch. \<not> visits res s bx by)
              \<longrightarrow> (\<forall>k < Ng. rate_map ! k ! (bx * res + by) = 0))"
proof -
  let ?c0 = "replicate res (replicate res (0::real))"
  let ?a0 = "replicate Ng (replicate res (replicate res (0::real)))"
  let ?al0 = "replicate Ng (replicate res (replicate res (replicate (length batches) (0::real))))"
  obtain counts acts al where
    loop: "batches_loop res flag 0 batches (?c0, ?a0, ?al0) = (counts, acts, al)"
    by (metis prod.exhaust)
  have c0: "map length ?c0 = replicate res res" by simp
  have a0: "map (map length) ?a0 = replicate Ng (replicate res res)" by simp
  note fr = batches_loop_frame [OF loop g c0 a0]
  from fr have shape: "map (map length) acts = replicate Ng (replicate res res)" by simp
  from normalize_frame [OF shape, of counts "[0..<res]"] obtain final where
    norm: "normalize counts res [0..<res] acts = Inr final"
    and fshape: "map (map length) final = replicate Ng (replicate res res)"
    by blast
  have zero: "map concat final ! k ! (bx * res + by) = 0"
    if "bx < res" "by < res" "k < Ng"
       "\<forall>batch \<in> set batches. \<forall>s \<in> set batch. \<not> visits res s bx by" for bx "by" k
  proof -
    from fr [of bx "by"] that
    have c: "counts ! bx ! by = 0" and a: "acts ! k ! bx ! by = 0" by simp_all
    from normalize_frame [OF shape, of counts "[0..<res]" bx "by" k] norm c that
    have "final ! k ! bx ! by = acts ! k ! bx ! by" by simp
    with a rate_map_entry [OF fshape that(3) that(1) that(2)] show ?thesis by simp
  qed
  from shape3D(1) [OF fshape] have len: "length (map concat final) = Ng" by simp
  have "compute_ratemaps res Ng flag batches
          = Inr (if flag then Array4 al else Array3 final, map concat final)"
    using loop norm by (simp add: compute_ratemaps_def Let_def)
  with len zero show ?thesis by blast
qed

text \<open>
  C10. In \<^verbatim>\<open>compute_ratemaps\<close> and in \<^verbatim>\<open>compute_ratemaps_single_agent\<close>, for
  batches whose activation rows have \<open>Ng\<close> entries (as the reshape of \<^verbatim>\<open>g_batch\<close>
  makes them), the normalization divides by \<^verbatim>\<open>counts[x, y]\<close> under \<^verbatim>\<open>counts[x, y] > 0\<close>
  only, so the run never divides by zero (it returns, and does not end in
  \<^verbatim>\<open>ZeroDivisionError\<close>); and in the rate map it returns, every bin that no sample
  visits is exactly 0 for every one of the \<open>Ng\<close> units. The bin \<open>(bx, by)\<close> is entry
  \<open>bx * res + by\<close> of a unit's row of the rate map.
\<close>

theorem ratemaps_unvisited_bins_zero:
  assumes "\<forall>batch \<in> set batches. \<forall>s \<in> set batch. length (snd (snd s)) = Ng"
  shows "(\<exists>activations rate_map.
            compute_ratemaps res Ng all_activations_flag batches = Inr (activations, rate_map)
          \<and> length rate_map = Ng
          \<and> (\<forall>bx < res. \<forall>by < res.
               (\<forall>batch \<in> set batches. \<forall>s \<in> set batch. \<not> visits res s bx by)
               \<longrightarrow> (\<forall>k < Ng. rate_map ! k ! (bx * res + by) = 0)))
       \<and> (\<exists>activations rate_map.
            compute_ratemaps_single_agent res Ng batches = Inr (activations, rate_map)
          \<and> length rate_map = Ng
          \<and> (\<forall>bx < res. \<forall>by < res.
               (\<forall>batch \<in> set batches. \<forall>s \<in> set batch. \<not> visits res s bx by)
               \<longrightarrow> (\<forall>k < Ng. rate_map ! k ! (bx * res + by) = 0)))"
proof
  show "\<exists>activations rate_map.
            compute_ratemaps res Ng all_activations_flag batches = Inr (activations, rate_map)
          \<and> length rate_map = Ng
          \<and> (\<forall>bx < res. \<forall>by < res.
               (\<forall>batch \<in> set batches. \<forall>s \<in> set batch. \<not> visits res s bx by)
               \<longrightarrow> (\<forall>k < Ng. rate_map ! k ! (bx * res + by) = 0))"
    by (rule compute_ratemaps_unvisited [OF assms])
  from compute_ratemaps_unvisited [OF assms, of res False] obtain arr rate_map where
    r: "compute_ratemaps res Ng False batches = Inr (arr, rate_map)"
       "length rate_map = Ng"
       "\<forall>bx < res. \<forall>by < res.
               (\<forall>batch \<in> set batches. \<forall>s \<in> set batch. \<not> visits res s bx by)
               \<longrightarrow> (\<forall>k < Ng. rate_map ! k ! (bx * res + by) = 0)"
    by blast
  from r(1) obtain acts where
    "compute_ratemaps_single_agent res Ng batches = Inr (acts, rate_map)"
    by (auto simp: compute_ratemaps_single_agent_eq split: sum.splits)
  with r(2,3) show "\<exists>activations rate_map.
            compute_ratemaps_single_agent res Ng batches = Inr (activations, rate_map)
          \<and> length rate_map = Ng
          \<and> (\<forall>bx < res. \<forall>by < res.
               (\<forall>batch \<in> set batches. \<forall>s \<in> set batch. \<not> visits res s bx by)
               \<longrightarrow> (\<forall>k < Ng. rate_map ! k ! (bx * res + by) = 0))"
    by blast
qed


theorem ratemaps_unvisited_bins_zero_witness:
  "(\<exists>activations rate_map.
         compute_ratemaps 2 2 True
           [[(0.5, 1.5, [1, 2]), (0.7, 1.2, [3, 4]), (5, 0, [7, 7])], [(1.5, 1.5, [10, 20])]]
           = Inr (activations, rate_map)
       \<and> rate_map ! 0 ! 2 = 0 \<and> rate_map ! 1 ! 2 = 0)
   \<and> (\<exists>activations rate_map.
         compute_ratemaps_single_agent 2 2
           [[(0.5, 1.5, [1, 2]), (0.7, 1.2, [3, 4]), (5, 0, [7, 7])], [(1.5, 1.5, [10, 20])]]
           = Inr (activations, rate_map)
       \<and> rate_map ! 0 ! 2 = 0 \<and> rate_map ! 1 ! 2 = 0)"
proof -
  let ?B = "[[(0.5, 1.5, [1, 2]), (0.7, 1.2, [3, 4]), (5, 0, [7, 7])],
             [(1.5, 1.5, [10, 20::real])]] :: sample list list"
  have h: "\<forall>batch \<in> set ?B. \<forall>s \<in> set batch. length (snd (snd s)) = 2" by simp
  have u: "\<forall>batch \<in> set ?B. \<forall>s \<in> set batch. \<not> visits 2 s 1 0"
    by (simp add: visits_def)
  note th = ratemaps_unvisited_bins_zero [OF h, of 2 True]
  from th obtain acts rate_map where
    r: "compute_ratemaps 2 2 True ?B = Inr (acts, rate_map)"
    and z: "\<forall>bx < 2. \<forall>by < 2.
               (\<forall>batch \<in> set ?B. \<forall>s \<in> set batch. \<not> visits 2 s bx by)
               \<longrightarrow> (\<forall>k < 2. rate_map ! k ! (bx * 2 + by) = 0)"
    by blast
  have one: "(1::nat) < 2" and zero: "(0::nat) < 2" by simp_all
  note zz = z [rule_format, OF one zero u [rule_format]]
  from zz [where k = 0] zz [where k = 1]
  have dual: "rate_map ! 0 ! 2 = 0 \<and> rate_map ! 1 ! 2 = 0" by simp
  from th obtain acts' rate_map' where
    r': "compute_ratemaps_single_agent 2 2 ?B = Inr (acts', rate_map')"
    and z': "\<forall>bx < 2. \<forall>by < 2.
               (\<forall>batch \<in> set ?B. \<forall>s \<in> set batch. \<not> visits 2 s bx by)
               \<longrightarrow> (\<forall>k < 2. rate_map' ! k ! (bx * 2 + by) = 0)"
    by blast
  note zz' = z' [rule_format, OF one zero u [rule_format]]
  from zz' [where k = 0] zz' [where k = 1]
  have single: "rate_map' ! 0 ! 2 = 0 \<and> rate_map' ! 1 ! 2 = 0" by simp
  from r dual r' single show ?thesis by blast
qed

end
